theory Spec2Isabelle
  imports Complex_Main
begin

section \<open>URLSearchParams\<close>

text \<open>
  A \<^verbatim>\<open>URLSearchParams\<close> object is an ordered list of name/value pairs; a name may
  occur more than once. Only the operations the signup element uses are modelled:
  \<^verbatim>\<open>get\<close> (first value of the name, or null), \<^verbatim>\<open>delete\<close> (drops every pair of the name),
  \<^verbatim>\<open>set\<close> (overwrites the first pair of the name and drops the others, or appends),
  \<^verbatim>\<open>getAll\<close> (every value of the name, in order) and \<^verbatim>\<open>has\<close>.
\<close>

type_synonym URLSearchParams = "(string \<times> string) list"

fun params_get :: "URLSearchParams \<Rightarrow> string \<Rightarrow> string option" where
  "params_get [] name = None"
| "params_get ((k, v) # ps) name = (if k = name then Some v else params_get ps name)"

definition params_delete :: "URLSearchParams \<Rightarrow> string \<Rightarrow> URLSearchParams" where
  "params_delete ps name = filter (\<lambda>(k, v). k \<noteq> name) ps"

fun params_set :: "URLSearchParams \<Rightarrow> string \<Rightarrow> string \<Rightarrow> URLSearchParams" where
  "params_set [] name val = [(name, val)]"
| "params_set ((k, v) # ps) name val =
     (if k = name then (name, val) # params_delete ps name
      else (k, v) # params_set ps name val)"

definition params_getAll :: "URLSearchParams \<Rightarrow> string \<Rightarrow> string list" where
  "params_getAll ps name = map snd (filter (\<lambda>(k, v). k = name) ps)"

definition params_has :: "URLSearchParams \<Rightarrow> string \<Rightarrow> bool" where
  "params_has ps name = (name \<in> fst ` set ps)"

section \<open>The object store\<close>

text \<open>
  \<^verbatim>\<open>SpliceableUrlSearchParams\<close> holds two mutable \<^verbatim>\<open>URLSearchParams\<close> objects and hands
  out a third, so objects live in a store and are named by references. A reference
  below \<open>fresh\<close> is allocated; \<^verbatim>\<open>new URLSearchParams(init)\<close> takes the next one and
  copies the pairs of \<open>init\<close> into it.
\<close>

type_synonym ref = nat

record store =
  cells :: "ref \<Rightarrow> URLSearchParams"
  fresh :: ref

definition empty_store :: store where
  "empty_store = \<lparr>cells = (\<lambda>_. []), fresh = 0\<rparr>"

definition new_URLSearchParams :: "URLSearchParams \<Rightarrow> store \<Rightarrow> ref \<times> store" where
  "new_URLSearchParams init h =
     (fresh h, h\<lparr>cells := (cells h)(fresh h := init), fresh := Suc (fresh h)\<rparr>)"

definition mutate :: "ref \<Rightarrow> (URLSearchParams \<Rightarrow> URLSearchParams) \<Rightarrow> store \<Rightarrow> store" where
  "mutate r f h = h\<lparr>cells := (cells h)(r := f (cells h r))\<rparr>"

section \<open>SpliceableUrlSearchParams\<close>

text \<open>
  \<^verbatim>\<open>
  class SpliceableUrlSearchParams {
    private readonly original: URLSearchParams;
    private readonly remainder: URLSearchParams;
    constructor(original) {
      this.original = new URLSearchParams(original as any);
      this.remainder = new URLSearchParams(this.original);
    }
    get(field)    { return this.original.get(field); }
    splice(field) { this.remainder.delete(field); return this.get(field); }
    getRemainder() { return new URLSearchParams(this.remainder); }
  }
  \<close>
  The constructor's argument is the list of entries of the \<^verbatim>\<open>FormData\<close>.
\<close>

record SpliceableUrlSearchParams =
  original :: ref
  remainder :: ref

definition new_Spliceable ::
  "URLSearchParams \<Rightarrow> store \<Rightarrow> SpliceableUrlSearchParams \<times> store" where
  "new_Spliceable entries h =
     (let (orig, h1) = new_URLSearchParams entries h;
          (rem, h2) = new_URLSearchParams (cells h1 orig) h1
      in (\<lparr>original = orig, remainder = rem\<rparr>, h2))"

definition get :: "SpliceableUrlSearchParams \<Rightarrow> string \<Rightarrow> store \<Rightarrow> string option" where
  "get this field h = params_get (cells h (original this)) field"

definition splice ::
  "SpliceableUrlSearchParams \<Rightarrow> string \<Rightarrow> store \<Rightarrow> string option \<times> store" where
  "splice this field h =
     (let h1 = mutate (remainder this) (\<lambda>ps. params_delete ps field) h
      in (get this field h1, h1))"

definition getRemainder :: "SpliceableUrlSearchParams \<Rightarrow> store \<Rightarrow> ref \<times> store" where
  "getRemainder this h = new_URLSearchParams (cells h (remainder this)) h"

text \<open>A sequence of \<^verbatim>\<open>splice\<close> calls, their return values dropped.\<close>

definition splice_all :: "SpliceableUrlSearchParams \<Rightarrow> string list \<Rightarrow> store \<Rightarrow> store" where
  "splice_all this names h = foldl (\<lambda>h' field. snd (splice this field h')) h names"

text \<open>A splicer is allocated in a store when its two objects are, and they are distinct.\<close>

definition allocated :: "SpliceableUrlSearchParams \<Rightarrow> store \<Rightarrow> bool" where
  "allocated this h \<longleftrightarrow>
     original this < fresh h \<and> remainder this < fresh h \<and> original this \<noteq> remainder this"

text \<open>
  Observations used to state properties: the values a sequence of \<^verbatim>\<open>splice\<close> calls
  returns, in order, and the pairs of the object \<^verbatim>\<open>getRemainder()\<close> hands out in a
  given store.
\<close>

fun splice_returns ::
  "SpliceableUrlSearchParams \<Rightarrow> string list \<Rightarrow> store \<Rightarrow> string option list" where
  "splice_returns this [] h = []"
| "splice_returns this (field # names) h =
     fst (splice this field h) # splice_returns this names (snd (splice this field h))"

definition remainder_pairs :: "SpliceableUrlSearchParams \<Rightarrow> store \<Rightarrow> URLSearchParams" where
  "remainder_pairs this h = (let (r, h1) = getRemainder this h in cells h1 r)"

section \<open>The signup element: state and rendered form\<close>

datatype payment_method = Bank | Card | Plaid

record PlaidToken =
  public_token :: string
  account_name :: string
  account_id :: string

record PlaidAccount =
  acct_name :: string
  acct_id :: string

record PlaidMetadata =
  institution_name :: string
  accounts :: "PlaidAccount list"

text \<open>
  What JavaScript code throws, or a promise is rejected with: \<^verbatim>\<open>throw false\<close>, a string
  (\<^verbatim>\<open>throw error.message\<close>, \<^verbatim>\<open>Promise.reject(message)\<close>) or an error object such as the
  \<^verbatim>\<open>TypeError\<close> of a property access on null. \<^verbatim>\<open>if (e)\<close> tests truthiness.
\<close>

datatype thrown = JBool bool | JString string | JError string

fun truthy :: "thrown \<Rightarrow> bool" where
  "truthy (JBool b) = b"
| "truthy (JString s) = (s \<noteq> [])"
| "truthy (JError _) = True"

text \<open>
  The effects of the element on the outside, in order: a call of Stripe's
  \<^verbatim>\<open>createToken\<close> with its data, the POST to \<^verbatim>\<open>window.SIGNUP_API\<close> with its body, a
  blocking \<^verbatim>\<open>alert\<close>, and \<^verbatim>\<open>scrollIntoView\<close> on a named input. Console logging is left out.
\<close>

datatype token_kind = CardElement | BankAccount

datatype effect =
  CreateToken token_kind "(string \<times> string option) list"
| Fetch URLSearchParams
| Alert thrown
| ScrollIntoView string

text \<open>
  The element's reactive properties, the part of the DOM the claims depend on (the
  value and the custom validity message of every named input, the form's
  \<^verbatim>\<open>invalidatable\<close> class), whether the element has rendered at least once
  (LitElement's \<^verbatim>\<open>hasUpdated\<close>) and the effects so far.
\<close>

record Signup =
  paymentMethod :: payment_method
  plaidToken :: "PlaidToken option"
  isLoading :: bool
  isComplete :: bool
  invalidatable :: bool
  hasUpdated :: bool
  inputValue :: "string \<Rightarrow> string"
  customValidity :: "string \<Rightarrow> string"
  trace :: "effect list"

text \<open>
  The names of the inputs and selects each template puts into the form, in document
  order. The Stripe card element is mounted outside the shadow DOM and is not a form
  control; buttons and the two calculator inputs have no name. \<^verbatim>\<open>render\<close> holds
  \<^verbatim>\<open>${this.plaidToken ? this.connectedPlaidTemplate() : this.paymentTemplate()}\<close> and
  \<^verbatim>\<open>paymentMethodTemplate\<close> returns one of three templates, so the form holds the
  controls of the selected template only: the nodes of another template are removed
  when the selection changes.
\<close>

definition bankTemplate :: "string list" where
  "bankTemplate = [''routing-number'', ''account-number'', ''account-holder-name'', ''billing-country'']"

definition cardTemplate :: "string list" where
  "cardTemplate = [''card-holder-name'', ''billing-address-1'', ''billing-address-2'', ''billing-city'',
     ''billing-state'', ''billing-zip'', ''billing-country'']"

definition plaidTemplate :: "string list" where
  "plaidTemplate = []"

definition connectedPlaidTemplate :: "string list" where
  "connectedPlaidTemplate = []"

definition paymentMethodTemplate :: "Signup \<Rightarrow> string list" where
  "paymentMethodTemplate this =
     (case paymentMethod this of Bank \<Rightarrow> bankTemplate | Card \<Rightarrow> cardTemplate | Plaid \<Rightarrow> plaidTemplate)"

definition paymentTemplate :: "Signup \<Rightarrow> string list" where
  "paymentTemplate this = paymentMethodTemplate this"

definition render :: "Signup \<Rightarrow> string list" where
  "render this =
     [''preferred-name'', ''pronouns'', ''preferred-language'', ''personal-email'', ''personal-phone'',
      ''mailing-address-1'', ''mailing-address-2'', ''mailing-city'', ''mailing-region'',
      ''mailing-postal-code'', ''mailing-country'', ''employment-type'', ''employer'', ''job-title'',
      ''team'', ''org'', ''product-area'', ''site-code'', ''building-code'', ''have-reports'',
      ''work-email'', ''total-compensation'', ''currency'']
     @ (case plaidToken this of Some _ \<Rightarrow> connectedPlaidTemplate | None \<Rightarrow> paymentTemplate this)
     @ [''signature'']"

text \<open>\<^verbatim>\<open>new FormData(this.form)\<close>: one entry per named control of the rendered form.\<close>

definition FormData :: "Signup \<Rightarrow> URLSearchParams" where
  "FormData this = map (\<lambda>n. (n, inputValue this n)) (render this)"

text \<open>
  \<^verbatim>\<open>
  setInvalid(field, message) {
    const input = this.form.elements.namedItem(field) as HTMLInputElement;
    input.setCustomValidity(message);
    input.scrollIntoView({ behavior: 'smooth', block: 'center' });
  }
  \<close>
  \<^verbatim>\<open>namedItem\<close> is null for a name the form does not hold, and the call on it throws.
\<close>

definition setInvalid :: "string \<Rightarrow> string \<Rightarrow> Signup \<Rightarrow> thrown + Signup" where
  "setInvalid field message this =
     (if field \<in> set (render this)
      then Inr (this\<lparr>customValidity := (customValidity this)(field := message),
                     trace := trace this @ [ScrollIntoView field]\<rparr>)
      else Inl (JError ''TypeError''))"

section \<open>Tokenization\<close>

text \<open>
  The outside world of one submission. A submission calls \<^verbatim>\<open>stripe.createToken\<close> at most
  once and \<^verbatim>\<open>fetch\<close> at most once, so the world is the answer to each call.
  \<open>TokenRejected\<close> covers a rejected \<^verbatim>\<open>await this.stripe\<close> as well as a rejected
  \<^verbatim>\<open>createToken\<close>. A response that is not ok carries the \<^verbatim>\<open>error\<close> object of its JSON
  body (\<^verbatim>\<open>param\<close> optional), or whatever reading that body throws.
\<close>

datatype token_result =
  Token string
| TokenError "string option" string
| TokenRejected thrown

datatype response =
  Ok
| NotOk "string option" string
| NotOkUnreadable thrown

datatype fetch_result = Response response | FetchRejected thrown

record world =
  createToken :: token_result
  fetch :: fetch_result

text \<open>The \<^verbatim>\<open>switch (result.error.param)\<close> of \<^verbatim>\<open>cardToken\<close>: the field each case marks.\<close>

definition card_param_field :: "string option \<Rightarrow> string option" where
  "card_param_field param =
     (if param = Some ''card[name]'' then Some ''card-holder-name''
      else if param = Some ''card[address_line1]'' then Some ''billing-address-1''
      else if param = Some ''card[address_line2]'' then Some ''billing-address-2''
      else if param = Some ''card[address_city]'' then Some ''billing-city''
      else if param = Some ''card[address_zip]'' then Some ''billing-zip''
      else if param = Some ''card[address_country]'' then Some ''billing-country''
      else if param = Some ''currency'' then Some ''currency''
      else None)"

text \<open>The \<^verbatim>\<open>switch (result.error.param)\<close> of \<^verbatim>\<open>bankAccountToken\<close>.\<close>

definition bank_param_field :: "string option \<Rightarrow> string option" where
  "bank_param_field param =
     (if param = Some ''bank_account[country]'' then Some ''billing-country''
      else if param = Some ''bank_account[currency]'' then Some ''currency''
      else if param = Some ''bank_account[routing_number]'' then Some ''routing-number''
      else if param = Some ''bank_account[account_number]'' then Some ''account-number''
      else if param = Some ''bank_account[account_holder_name]'' then Some ''account-holder-name''
      else None)"

text \<open>
  The tail both token functions share: \<^verbatim>\<open>let message = ''\<close>, then a matched case calls
  \<^verbatim>\<open>setInvalid\<close> and leaves \<open>message\<close> empty, the default case sets it to the
  processor's message, and \<^verbatim>\<open>return Promise.reject(message)\<close>.
\<close>

definition reject_token_error :: "string option \<Rightarrow> string \<Rightarrow> Signup \<Rightarrow> thrown \<times> Signup" where
  "reject_token_error field message this =
     (case field of
        Some f \<Rightarrow> (case setInvalid f message this of
                     Inl e \<Rightarrow> (e, this)
                   | Inr this1 \<Rightarrow> (JString [], this1))
      | None \<Rightarrow> (JString message, this))"

text \<open>
  The object literal \<^verbatim>\<open>cardToken\<close> passes to \<^verbatim>\<open>createToken\<close>. Evaluating it performs the
  seven splices and the \<^verbatim>\<open>get\<close> of the currency, in this order.
\<close>

definition card_data ::
  "SpliceableUrlSearchParams \<Rightarrow> store \<Rightarrow> (string \<times> string option) list \<times> store" where
  "card_data data h =
     (let (name, h1) = splice data ''card-holder-name'' h;
          (address_line1, h2) = splice data ''billing-address-1'' h1;
          (address_line2, h3) = splice data ''billing-address-2'' h2;
          (address_city, h4) = splice data ''billing-city'' h3;
          (address_state, h5) = splice data ''billing-state'' h4;
          (address_zip, h6) = splice data ''billing-zip'' h5;
          (address_country, h7) = splice data ''billing-country'' h6;
          currency = get data ''currency'' h7
      in ([(''name'', name), (''address_line1'', address_line1),
           (''address_line2'', address_line2), (''address_city'', address_city),
           (''address_state'', address_state), (''address_zip'', address_zip),
           (''address_country'', address_country), (''currency'', currency)], h7))"

text \<open>
  \<^verbatim>\<open>cardToken(data)\<close>. The result is the rejection value, or the token id with the
  reference of the remainder copy.
\<close>

definition cardToken ::
  "world \<Rightarrow> SpliceableUrlSearchParams \<Rightarrow> Signup \<Rightarrow> store
     \<Rightarrow> (thrown + string \<times> ref) \<times> Signup \<times> store" where
  "cardToken w data this h =
     (let (request, h1) = card_data data h;
          this1 = this\<lparr>trace := trace this @ [CreateToken CardElement request]\<rparr>
      in case createToken w of
           Token tid \<Rightarrow> (let (rest, h2) = getRemainder data h1 in (Inr (tid, rest), this1, h2))
         | TokenError param message \<Rightarrow>
             (let (e, this2) = reject_token_error (card_param_field param) message this1
              in (Inl e, this2, h1))
         | TokenRejected e \<Rightarrow> (Inl e, this1, h1))"

text \<open>The object literal \<^verbatim>\<open>bankAccountToken\<close> passes to \<^verbatim>\<open>createToken\<close>.\<close>

definition bank_data ::
  "SpliceableUrlSearchParams \<Rightarrow> store \<Rightarrow> (string \<times> string option) list \<times> store" where
  "bank_data data h =
     (let (country, h1) = splice data ''billing-country'' h;
          currency = get data ''currency'' h1;
          (routing_number, h2) = splice data ''routing-number'' h1;
          (account_number, h3) = splice data ''account-number'' h2;
          (account_holder_name, h4) = splice data ''account-holder-name'' h3
      in ([(''country'', country), (''currency'', currency),
           (''routing_number'', routing_number), (''account_number'', account_number),
           (''account_holder_name'', account_holder_name),
           (''account_holder_type'', Some ''individual'')], h4))"

definition bankAccountToken ::
  "world \<Rightarrow> SpliceableUrlSearchParams \<Rightarrow> Signup \<Rightarrow> store
     \<Rightarrow> (thrown + string \<times> ref) \<times> Signup \<times> store" where
  "bankAccountToken w data this h =
     (let (request, h1) = bank_data data h;
          this1 = this\<lparr>trace := trace this @ [CreateToken BankAccount request]\<rparr>
      in case createToken w of
           Token tid \<Rightarrow> (let (rest, h2) = getRemainder data h1 in (Inr (tid, rest), this1, h2))
         | TokenError param message \<Rightarrow>
             (let (e, this2) = reject_token_error (bank_param_field param) message this1
              in (Inl e, this2, h1))
         | TokenRejected e \<Rightarrow> (Inl e, this1, h1))"

section \<open>Submission\<close>

text \<open>
  The second half of the \<^verbatim>\<open>try\<close> block of \<^verbatim>\<open>submit\<close>, from the \<^verbatim>\<open>fetch\<close> on:
  \<^verbatim>\<open>
  const result = await fetch(window.SIGNUP_API, { method: 'POST', body });
  if (result.ok) { this.isComplete = true; }
  else {
    const { error } = await result.json();
    if (error.param) { this.setInvalid(error.param, error.message); throw false; }
    else { throw error.message; }
  }
  this.isComplete = true;
  \<close>
  \<open>body\<close> is the pairs the body object holds when \<^verbatim>\<open>fetch\<close> is called; \<open>Inl e\<close> is
  the value thrown, \<open>Inr ()\<close> normal completion.
\<close>

definition submit_fetch :: "world \<Rightarrow> URLSearchParams \<Rightarrow> Signup \<Rightarrow> (thrown + unit) \<times> Signup" where
  "submit_fetch w body this =
     (let this1 = this\<lparr>trace := trace this @ [Fetch body]\<rparr>
      in case fetch w of
           FetchRejected e \<Rightarrow> (Inl e, this1)
         | Response Ok \<Rightarrow> (Inr (), this1\<lparr>isComplete := True\<rparr>)
         | Response (NotOkUnreadable e) \<Rightarrow> (Inl e, this1)
         | Response (NotOk param message) \<Rightarrow>
             (case param of
                None \<Rightarrow> (Inl (JString message), this1)
              | Some p \<Rightarrow>
                  if p \<noteq> [] then
                    (case setInvalid p message this1 of
                       Inl e \<Rightarrow> (Inl e, this1)
                     | Inr this2 \<Rightarrow> (Inl (JBool False), this2))
                  else (Inl (JString message), this1)))"

text \<open>
  The \<^verbatim>\<open>try\<close> block of \<^verbatim>\<open>submit\<close>:
  \<^verbatim>\<open>
  if (this.plaidToken) {
    body = fields.getRemainder();
    body.set('plaid-public-token', this.plaidToken.public_token);
    body.set('plaid-account-id', this.plaidToken.account_id);
  } else {
    const [token, remainingFields] = await (this.paymentMethod === 'bank'
      ? this.bankAccountToken(fields) : this.cardToken(fields));
    body = remainingFields;
    body.set('stripe-payment-token', token.id);
  }
  \<close>
\<close>

definition submit_try ::
  "world \<Rightarrow> SpliceableUrlSearchParams \<Rightarrow> Signup \<Rightarrow> store \<Rightarrow> (thrown + unit) \<times> Signup" where
  "submit_try w flds this h =
     (case plaidToken this of
        Some tok \<Rightarrow>
          (let (body, h1) = getRemainder flds h;
               h2 = mutate body (\<lambda>ps. params_set ps ''plaid-public-token'' (public_token tok)) h1;
               h3 = mutate body (\<lambda>ps. params_set ps ''plaid-account-id'' (account_id tok)) h2
           in submit_fetch w (cells h3 body) this)
      | None \<Rightarrow>
          (case (if paymentMethod this = Bank then bankAccountToken w flds this h
                 else cardToken w flds this h) of
             (Inl e, this1, h1) \<Rightarrow> (Inl e, this1)
           | (Inr (tid, remainingFields), this1, h1) \<Rightarrow>
               (let h2 = mutate remainingFields (\<lambda>ps. params_set ps ''stripe-payment-token'' tid) h1
                in submit_fetch w (cells h2 remainingFields) this1)))"

text \<open>The \<^verbatim>\<open>catch\<close> clause: \<^verbatim>\<open>catch (e) { if (e) { console.error(e); alert(e); } }\<close>.\<close>

definition submit_catch :: "(thrown + unit) \<times> Signup \<Rightarrow> Signup" where
  "submit_catch r =
     (case r of
        (Inl e, this1) \<Rightarrow> if truthy e then this1\<lparr>trace := trace this1 @ [Alert e]\<rparr> else this1
      | (Inr _, this1) \<Rightarrow> this1)"

text \<open>
  \<^verbatim>\<open>submit(event)\<close>: \<^verbatim>\<open>enableInvalidStyles()\<close>, \<^verbatim>\<open>this.isLoading = true\<close>, the splicer over the
  form's data (the source's \<^verbatim>\<open>fields\<close>), the \<^verbatim>\<open>try\<close> block with its \<^verbatim>\<open>catch\<close>, and
  \<^verbatim>\<open>finally { this.isLoading = false; }\<close>. The objects of one call are not reachable
  afterwards, so each call works on a store of its own.
\<close>

definition submit :: "world \<Rightarrow> Signup \<Rightarrow> Signup" where
  "submit w this =
     (let this0 = this\<lparr>invalidatable := True, isLoading := True\<rparr>;
          (flds, h) = new_Spliceable (FormData this0) empty_store;
          this2 = submit_catch (submit_try w flds this0 h)
      in this2\<lparr>isLoading := False\<rparr>)"

text \<open>
  The effects of one submission attempt and, read off them, the bodies it POSTs, the
  tokenization calls it makes and the alerts it raises.
\<close>

definition effects :: "world \<Rightarrow> Signup \<Rightarrow> effect list" where
  "effects w this = trace (submit w (this\<lparr>trace := []\<rparr>))"

definition posted :: "world \<Rightarrow> Signup \<Rightarrow> URLSearchParams list" where
  "posted w this = concat (map (\<lambda>e. case e of Fetch body \<Rightarrow> [body] | _ \<Rightarrow> []) (effects w this))"

definition tokenizations :: "world \<Rightarrow> Signup \<Rightarrow> token_kind list" where
  "tokenizations w this =
     concat (map (\<lambda>e. case e of CreateToken kind request \<Rightarrow> [kind] | _ \<Rightarrow> []) (effects w this))"

definition alerts :: "world \<Rightarrow> Signup \<Rightarrow> thrown list" where
  "alerts w this = concat (map (\<lambda>e. case e of Alert e' \<Rightarrow> [e'] | _ \<Rightarrow> []) (effects w this))"

section \<open>The bank link\<close>

text \<open>
  The \<^verbatim>\<open>onSuccess\<close> callback \<^verbatim>\<open>openPlaid\<close> hands to Plaid:
  \<^verbatim>\<open>
  this.plaidToken = {
    public_token,
    account_name: `${metadata.institution.name} ${metadata.accounts[0].name}`,
    account_id: metadata.accounts[0].id,
  };
  \<close>
  With no account in the metadata \<^verbatim>\<open>metadata.accounts[0]\<close> is undefined and reading its
  name throws before the assignment.
\<close>

definition onSuccess :: "string \<Rightarrow> PlaidMetadata \<Rightarrow> Signup \<Rightarrow> thrown + Signup" where
  "onSuccess token metadata this =
     (case accounts metadata of
        [] \<Rightarrow> Inl (JError ''TypeError'')
      | a # _ \<Rightarrow>
          Inr (this\<lparr>plaidToken := Some \<lparr>public_token = token,
                 account_name = institution_name metadata @ '' '' @ acct_name a,
                 account_id = acct_id a\<rparr>\<rparr>))"

definition clearPlaid :: "Signup \<Rightarrow> Signup" where
  "clearPlaid this = this\<lparr>plaidToken := None\<rparr>"

section \<open>Numbers\<close>








section \<open>Numbers to strings\<close>








section \<open>Strings to numbers\<close>












section \<open>Dues\<close>



section \<open>Example states and worlds\<close>

text \<open>
  A form with the card method selected, one with the manual bank method selected
  after a card holder name had been typed, one with a linked account, and one as the
  element starts: the linked method selected (the default of \<^verbatim>\<open>paymentMethod\<close>) and no
  account linked.
\<close>

definition example_values :: "string \<Rightarrow> string" where
  "example_values n =
     (if n = ''preferred-name'' then ''Ada''
      else if n = ''total-compensation'' then ''250000''
      else if n = ''currency'' then ''usd''
      else if n = ''card-holder-name'' then ''Ada Lovelace''
      else if n = ''billing-zip'' then ''9''
      else if n = ''routing-number'' then ''110000000''
      else if n = ''account-number'' then ''000123456789''
      else [])"

definition example_card_signup :: Signup where
  "example_card_signup =
     \<lparr>paymentMethod = Card, plaidToken = None, isLoading = False, isComplete = False,
      invalidatable = False, hasUpdated = True, inputValue = example_values,
      customValidity = (\<lambda>n. []), trace = []\<rparr>"

definition example_bank_signup :: Signup where
  "example_bank_signup = example_card_signup\<lparr>paymentMethod := Bank\<rparr>"

definition example_linked_signup :: Signup where
  "example_linked_signup =
     example_card_signup\<lparr>paymentMethod := Plaid,
       plaidToken := Some \<lparr>public_token = ''public-1'', account_name = ''Bank Checking'',
                           account_id = ''acct-1''\<rparr>\<rparr>"

definition example_plaid_signup :: Signup where
  "example_plaid_signup = example_card_signup\<lparr>paymentMethod := Plaid\<rparr>"

definition example_zip_refused :: world where
  "example_zip_refused =
     \<lparr>createToken = TokenError (Some ''card[address_zip]'') ''Your postal code is incomplete.'',
      fetch = Response Ok\<rparr>"

definition example_accepted :: world where
  "example_accepted = \<lparr>createToken = Token ''tok_1'', fetch = Response Ok\<rparr>"

definition example_token_refused :: world where
  "example_token_refused =
     \<lparr>createToken = Token ''tok_1'',
      fetch = Response (NotOk (Some ''stripe-payment-token'') ''Card declined'')\<rparr>"

definition example_email_refused :: world where
  "example_email_refused =
     \<lparr>createToken = Token ''tok_1'',
      fetch = Response (NotOk (Some ''personal-email'') ''Invalid email'')\<rparr>"

section \<open>The splicer: lemmas\<close>

lemma new_Spliceable_eq:
  "new_Spliceable entries h =
     (\<lparr>original = fresh h, remainder = Suc (fresh h)\<rparr>,
      h\<lparr>cells := (cells h)(fresh h := entries, Suc (fresh h) := entries),
        fresh := Suc (Suc (fresh h))\<rparr>)"
  by (simp add: new_Spliceable_def new_URLSearchParams_def)

lemma new_Spliceable_allocated: "allocated (fst (new_Spliceable entries h)) (snd (new_Spliceable entries h))"
  by (simp add: new_Spliceable_eq allocated_def)

lemma splice_store:
  "snd (splice this field h) =
     h\<lparr>cells := (cells h)(remainder this := params_delete (cells h (remainder this)) field)\<rparr>"
  by (simp add: splice_def mutate_def Let_def)

lemma splice_allocated: "allocated this h \<Longrightarrow> allocated this (snd (splice this field h))"
  by (simp add: splice_store allocated_def)

text \<open>Every state a splicer reaches after its construction is an allocated one.\<close>

lemma splice_all_allocated: "allocated this h \<Longrightarrow> allocated this (splice_all this names h)"
  unfolding splice_all_def
  by (induction names arbitrary: h) (simp_all add: splice_allocated)

lemma reachable_allocated:
  "allocated (fst (new_Spliceable entries h))
     (splice_all (fst (new_Spliceable entries h)) names (snd (new_Spliceable entries h)))"
  by (rule splice_all_allocated) (rule new_Spliceable_allocated)

lemma splice_original:
  "original this \<noteq> remainder this \<Longrightarrow>
     cells (snd (splice this field h)) (original this) = cells h (original this)"
  by (simp add: splice_store)

lemma splice_all_original:
  "original this \<noteq> remainder this \<Longrightarrow>
     cells (splice_all this names h) (original this) = cells h (original this)"
  unfolding splice_all_def
  by (induction names arbitrary: h) (simp_all add: splice_original)

lemma params_delete_twice:
  "params_delete (params_delete ps a) b = filter (\<lambda>(k, v). k \<noteq> a \<and> k \<noteq> b) ps"
  by (induction ps) (auto simp: params_delete_def)

lemma params_get_filter:
  "params_get (filter (\<lambda>(k, v). P k) ps) name = (if P name then params_get ps name else None)"
  by (induction ps) auto

section \<open>Claims about the splicer\<close>

text \<open>
  C1. For every payload and fields A and B: after \<^verbatim>\<open>splice(A)\<close> and \<^verbatim>\<open>splice(B)\<close>,
  \<^verbatim>\<open>getRemainder()\<close> returns a new object holding exactly the original pairs whose name
  is neither A nor B, in their order and with their values; looking a name up in it
  gives null for A and B and the original value for every other name. And after any
  sequence of \<^verbatim>\<open>splice\<close> calls, \<^verbatim>\<open>get(f)\<close> still returns what the payload holds at f.
\<close>

theorem C1_remainder_after_two_splices:
  "(let this = fst (new_Spliceable entries h);
        h1 = snd (new_Spliceable entries h);
        h3 = snd (splice this B (snd (splice this A h1)));
        body = cells (snd (getRemainder this h3)) (fst (getRemainder this h3))
    in body = filter (\<lambda>(k, v). k \<noteq> A \<and> k \<noteq> B) entries
     \<and> params_get body f = (if f = A \<or> f = B then None else params_get entries f)
     \<and> get this f (splice_all this names h1) = params_get entries f)"
proof -
  define this where "this = fst (new_Spliceable entries h)"
  define h1 where "h1 = snd (new_Spliceable entries h)"
  define h3 where "h3 = snd (splice this B (snd (splice this A h1)))"
  define body where "body = cells (snd (getRemainder this h3)) (fst (getRemainder this h3))"
  have b: "body = filter (\<lambda>(k, v). k \<noteq> A \<and> k \<noteq> B) entries"
    unfolding body_def h3_def h1_def this_def
    by (simp add: new_Spliceable_eq splice_store getRemainder_def new_URLSearchParams_def
        params_delete_twice)
  have g: "params_get body f = (if f = A \<or> f = B then None else params_get entries f)"
    unfolding b using params_get_filter [of "\<lambda>k. k \<noteq> A \<and> k \<noteq> B" entries f] by auto
  have "original this \<noteq> remainder this"
    unfolding this_def by (simp add: new_Spliceable_eq)
  then have "cells (splice_all this names h1) (original this) = cells h1 (original this)"
    by (rule splice_all_original)
  then have o: "get this f (splice_all this names h1) = params_get entries f"
    unfolding this_def h1_def by (simp add: get_def new_Spliceable_eq)
  from b g o show ?thesis
    unfolding Let_def body_def h3_def h1_def this_def by blast
qed

lemma splice_value: "original this \<noteq> remainder this \<Longrightarrow> fst (splice this field h) = get this field h"
  by (simp add: splice_def mutate_def Let_def get_def)

lemma remainder_pairs_eq: "remainder_pairs this h = cells h (remainder this)"
  by (simp add: remainder_pairs_def getRemainder_def new_URLSearchParams_def)

lemma params_delete_idem: "params_delete (params_delete ps a) a = params_delete ps a"
  by (simp add: params_delete_def)

text \<open>
  C5, as stated, fails: the second \<^verbatim>\<open>splice\<close> of a field does not return null. On the
  payload \<open>name=Ada\<close> both calls return \<open>Ada\<close>, because \<^verbatim>\<open>splice\<close> answers from the
  untouched original copy.
\<close>

theorem C5_second_splice_counterexample:
  "splice_returns (fst (new_Spliceable [(''name'', ''Ada'')] empty_store)) [''name'', ''name'']
     (snd (new_Spliceable [(''name'', ''Ada'')] empty_store)) = [Some ''Ada'', Some ''Ada'']"
  by (simp add: new_Spliceable_eq empty_store_def splice_def mutate_def Let_def get_def)

text \<open>
  C5, amended. In every state a splicer reaches (built from any payload, then any
  sequence of splices), splicing a field F twice returns the same value both times,
  namely the payload's value at F (null only when the payload has no F), and
  \<^verbatim>\<open>getRemainder()\<close> gives the same pairs after the second call as after the first.
\<close>

theorem C5_splice_twice_same_remainder:
  "(let this = fst (new_Spliceable entries h);
        h1 = splice_all this names (snd (new_Spliceable entries h))
    in splice_returns this [F, F] h1 = [params_get entries F, params_get entries F]
     \<and> remainder_pairs this (splice_all this [F, F] h1) = remainder_pairs this (splice_all this [F] h1))"
proof -
  define this where "this = fst (new_Spliceable entries h)"
  define h1 where "h1 = splice_all this names (snd (new_Spliceable entries h))"
  have ne: "original this \<noteq> remainder this"
    unfolding this_def by (simp add: new_Spliceable_eq)
  have orig: "cells h1 (original this) = entries"
    unfolding h1_def using splice_all_original [OF ne] by (simp add: this_def new_Spliceable_eq)
  have first: "fst (splice this F h1) = params_get entries F"
    using ne orig by (simp add: splice_value get_def)
  have "cells (snd (splice this F h1)) (original this) = entries"
    using ne orig by (simp add: splice_original)
  then have second: "fst (splice this F (snd (splice this F h1))) = params_get entries F"
    using ne by (simp add: splice_value get_def)
  have rem: "remainder_pairs this (splice_all this [F, F] h1) = remainder_pairs this (splice_all this [F] h1)"
    by (simp add: remainder_pairs_eq splice_all_def splice_store params_delete_idem)
  from first second rem show ?thesis
    unfolding Let_def this_def h1_def by simp
qed

text \<open>
  C10. For a splicer allocated in the store (as every splicer is from its construction
  on), \<^verbatim>\<open>getRemainder()\<close> returns a new object: its reference is neither of the
  splicer's own two, so whatever is done to the returned object afterwards (any
  update \<open>g\<close> of its pairs, such as setting a token field) leaves \<^verbatim>\<open>get\<close> and a
  later \<^verbatim>\<open>getRemainder()\<close> answering as before.
\<close>

theorem C10_getRemainder_is_a_copy:
  assumes "allocated this h"
  shows "(let r = fst (getRemainder this h);
              h2 = mutate r g (snd (getRemainder this h))
          in r \<noteq> original this \<and> r \<noteq> remainder this
           \<and> cells (snd (getRemainder this h)) r = cells h (remainder this)
           \<and> get this f h2 = get this f h
           \<and> remainder_pairs this h2 = remainder_pairs this h
           \<and> allocated this h2)"
  using assms
  by (auto simp: allocated_def getRemainder_def new_URLSearchParams_def mutate_def Let_def
      get_def remainder_pairs_eq)

theorem C10_getRemainder_is_a_copy_witness:
  "allocated (fst (new_Spliceable [(''name'', ''Ada''), (''currency'', ''usd'')] empty_store))
     (snd (new_Spliceable [(''name'', ''Ada''), (''currency'', ''usd'')] empty_store))
   \<and> remainder_pairs (fst (new_Spliceable [(''name'', ''Ada''), (''currency'', ''usd'')] empty_store))
       (mutate 2 (\<lambda>ps. params_set ps ''stripe-payment-token'' ''tok_1'')
         (snd (getRemainder (fst (new_Spliceable [(''name'', ''Ada''), (''currency'', ''usd'')] empty_store))
           (snd (new_Spliceable [(''name'', ''Ada''), (''currency'', ''usd'')] empty_store)))))
     = [(''name'', ''Ada''), (''currency'', ''usd'')]"
proof -
  have a: "allocated (fst (new_Spliceable [(''name'', ''Ada''), (''currency'', ''usd'')] empty_store))
     (snd (new_Spliceable [(''name'', ''Ada''), (''currency'', ''usd'')] empty_store))"
    by (simp add: new_Spliceable_eq allocated_def empty_store_def)
  have r: "fst (getRemainder (fst (new_Spliceable [(''name'', ''Ada''), (''currency'', ''usd'')] empty_store))
           (snd (new_Spliceable [(''name'', ''Ada''), (''currency'', ''usd'')] empty_store))) = 2"
    by (simp add: new_Spliceable_eq getRemainder_def new_URLSearchParams_def empty_store_def)
  have p: "remainder_pairs (fst (new_Spliceable [(''name'', ''Ada''), (''currency'', ''usd'')] empty_store))
     (snd (new_Spliceable [(''name'', ''Ada''), (''currency'', ''usd'')] empty_store))
     = [(''name'', ''Ada''), (''currency'', ''usd'')]"
    by (simp add: new_Spliceable_eq remainder_pairs_eq empty_store_def)
  show ?thesis
    using C10_getRemainder_is_a_copy [OF a, of "\<lambda>ps. params_set ps ''stripe-payment-token'' ''tok_1''"] a r p
    by (simp add: Let_def)
qed

section \<open>The form and the request body: lemmas\<close>

lemma render_update [simp]:
  "render (this\<lparr>invalidatable := a\<rparr>) = render this"
  "render (this\<lparr>isLoading := b\<rparr>) = render this"
  "render (this\<lparr>isComplete := b\<rparr>) = render this"
  "render (this\<lparr>trace := t\<rparr>) = render this"
  "render (this\<lparr>customValidity := c\<rparr>) = render this"
  by (simp_all add: render_def paymentTemplate_def paymentMethodTemplate_def split: option.splits)

lemma FormData_update [simp]:
  "FormData (this\<lparr>invalidatable := a\<rparr>) = FormData this"
  "FormData (this\<lparr>isLoading := b\<rparr>) = FormData this"
  "FormData (this\<lparr>isComplete := b\<rparr>) = FormData this"
  "FormData (this\<lparr>trace := t\<rparr>) = FormData this"
  "FormData (this\<lparr>customValidity := c\<rparr>) = FormData this"
  by (simp_all add: FormData_def)

lemma card_data_rest:
  "cells (snd (card_data data h)) (remainder data)
     = filter (\<lambda>(k, v). k \<notin> set cardTemplate) (cells h (remainder data))"
  by (simp add: card_data_def splice_def mutate_def Let_def params_delete_def cardTemplate_def
      case_prod_beta conj_commute conj_left_commute cong: filter_cong)

lemma bank_data_rest:
  "cells (snd (bank_data data h)) (remainder data)
     = filter (\<lambda>(k, v). k \<notin> set bankTemplate) (cells h (remainder data))"
  apply (simp add: bank_data_def splice_def mutate_def Let_def params_delete_def bankTemplate_def
      case_prod_beta)
  by (rule filter_cong) auto

lemma submit_try_plaid:
  "plaidToken this = Some tok \<Longrightarrow>
   submit_try w flds this h =
     submit_fetch w (params_set (params_set (cells h (remainder flds)) ''plaid-public-token'' (public_token tok)) ''plaid-account-id'' (account_id tok)) this"
  by (simp add: submit_try_def getRemainder_def new_URLSearchParams_def mutate_def Let_def)

lemma submit_try_card:
  "plaidToken this = None \<Longrightarrow> paymentMethod this \<noteq> Bank \<Longrightarrow>
   submit_try w flds this h =
     (let this1 = this\<lparr>trace := trace this @ [CreateToken CardElement (fst (card_data flds h))]\<rparr>
      in case createToken w of
           Token tid \<Rightarrow> submit_fetch w (params_set (filter (\<lambda>(k, v). k \<notin> set cardTemplate) (cells h (remainder flds))) ''stripe-payment-token'' tid) this1
         | TokenError param message \<Rightarrow> (Inl (fst (reject_token_error (card_param_field param) message this1)), snd (reject_token_error (card_param_field param) message this1))
         | TokenRejected e \<Rightarrow> (Inl e, this1))"
  using card_data_rest [of flds h]
  by (simp add: submit_try_def cardToken_def getRemainder_def new_URLSearchParams_def mutate_def Let_def
      case_prod_beta split: token_result.splits)

lemma submit_try_bank:
  "plaidToken this = None \<Longrightarrow> paymentMethod this = Bank \<Longrightarrow>
   submit_try w flds this h =
     (let this1 = this\<lparr>trace := trace this @ [CreateToken BankAccount (fst (bank_data flds h))]\<rparr>
      in case createToken w of
           Token tid \<Rightarrow> submit_fetch w (params_set (filter (\<lambda>(k, v). k \<notin> set bankTemplate) (cells h (remainder flds))) ''stripe-payment-token'' tid) this1
         | TokenError param message \<Rightarrow> (Inl (fst (reject_token_error (bank_param_field param) message this1)), snd (reject_token_error (bank_param_field param) message this1))
         | TokenRejected e \<Rightarrow> (Inl e, this1))"
  using bank_data_rest [of flds h]
  by (simp add: submit_try_def bankAccountToken_def getRemainder_def new_URLSearchParams_def mutate_def Let_def
      case_prod_beta split: token_result.splits)

lemma submit_fetch_posted:
  "concat (map (\<lambda>e. case e of Fetch body \<Rightarrow> [body] | _ \<Rightarrow> []) (trace (submit_catch (submit_fetch w body this))))
    = concat (map (\<lambda>e. case e of Fetch body \<Rightarrow> [body] | _ \<Rightarrow> []) (trace this)) @ [body]"
  by (simp add: submit_fetch_def submit_catch_def setInvalid_def Let_def
      split: fetch_result.splits response.splits option.splits sum.splits)

lemma reject_posted:
  "concat (map (\<lambda>e. case e of Fetch body \<Rightarrow> [body] | _ \<Rightarrow> []) (trace (submit_catch (Inl (fst (reject_token_error fld msg this)), snd (reject_token_error fld msg this)))))
    = concat (map (\<lambda>e. case e of Fetch body \<Rightarrow> [body] | _ \<Rightarrow> []) (trace this))"
  by (simp add: reject_token_error_def submit_catch_def setInvalid_def split: option.splits)

lemma posted_plaid:
  "plaidToken this = Some tok \<Longrightarrow>
   posted w this = [params_set (params_set (FormData this) ''plaid-public-token'' (public_token tok)) ''plaid-account-id'' (account_id tok)]"
  by (simp add: posted_def effects_def submit_def Let_def new_Spliceable_eq empty_store_def
      submit_try_plaid submit_fetch_posted)

lemma posted_token:
  "plaidToken this = None \<Longrightarrow>
   posted w this =
     (case createToken w of
        Token tid \<Rightarrow> [params_set (filter (\<lambda>(k, v). k \<notin> set (if paymentMethod this = Bank then bankTemplate else cardTemplate)) (FormData this)) ''stripe-payment-token'' tid]
      | _ \<Rightarrow> [])"
  apply (cases "paymentMethod this = Bank")
   apply (simp_all add: posted_def effects_def submit_def Let_def new_Spliceable_eq empty_store_def
      submit_try_bank submit_try_card submit_fetch_posted reject_posted split: token_result.splits)
   apply (simp_all add: submit_catch_def)
  done

lemma params_getAll_Nil: "params_getAll [] m = []"
  by (simp add: params_getAll_def)

lemma params_getAll_Cons:
  "params_getAll ((k, x) # ps) m = (if k = m then x # params_getAll ps m else params_getAll ps m)"
  by (simp add: params_getAll_def)

lemma params_getAll_delete:
  "params_getAll (params_delete ps n) m = (if m = n then [] else params_getAll ps m)"
  by (induction ps) (auto simp: params_getAll_def params_delete_def)

lemma params_getAll_set:
  "params_getAll (params_set ps n v) m = (if m = n then [v] else params_getAll ps m)"
proof (induction ps)
  case Nil
  then show ?case by (simp add: params_getAll_Nil params_getAll_Cons)
next
  case (Cons p ps)
  obtain k x where p: "p = (k, x)" by (cases p)
  show ?case
  proof (cases "k = n")
    case True
    then show ?thesis
      by (simp add: p params_getAll_Cons params_getAll_delete)
  next
    case False
    then show ?thesis
      using Cons.IH by (auto simp: p params_getAll_Cons split: if_splits)
  qed
qed

lemma params_getAll_filter:
  "params_getAll (filter (\<lambda>(k, v). P k) ps) m = (if P m then params_getAll ps m else [])"
  by (induction ps) (auto simp: params_getAll_def)

lemma params_getAll_FormData:
  "params_getAll (FormData this) m = map (inputValue this) (filter (\<lambda>n. n = m) (render this))"
  unfolding FormData_def params_getAll_def
  by (induction "render this") (auto simp: filter_map comp_def)

lemma params_has_getAll: "params_has ps m \<longleftrightarrow> params_getAll ps m \<noteq> []"
  by (induction ps) (auto simp: params_has_def params_getAll_def)

lemma render_distinct: "distinct (render this)"
  by (cases "plaidToken this"; cases "paymentMethod this")
    (simp_all add: render_def paymentTemplate_def paymentMethodTemplate_def bankTemplate_def
      cardTemplate_def plaidTemplate_def connectedPlaidTemplate_def)

lemma filter_eq_distinct: "distinct xs \<Longrightarrow> m \<in> set xs \<Longrightarrow> filter (\<lambda>n. n = m) xs = [m]"
  by (induction xs) (auto simp: filter_empty_conv)

lemma params_getAll_FormData_rendered:
  "m \<in> set (render this) \<Longrightarrow> params_getAll (FormData this) m = [inputValue this m]"
  by (simp add: params_getAll_FormData filter_eq_distinct [OF render_distinct])

lemma params_getAll_FormData_absent:
  "m \<notin> set (render this) \<Longrightarrow> params_getAll (FormData this) m = []"
  by (auto simp: params_getAll_FormData filter_empty_conv)

lemmas submit_unfold =
  submit_def effects_def posted_def alerts_def tokenizations_def Let_def new_Spliceable_eq
  empty_store_def submit_fetch_def submit_catch_def reject_token_error_def setInvalid_def

lemma onSuccess_first_account:
  "onSuccess token \<lparr>institution_name = i, accounts = a # rest\<rparr> this =
     Inr (this\<lparr>plaidToken := Some \<lparr>public_token = token,
            account_name = i @ '' '' @ acct_name a, account_id = acct_id a\<rparr>\<rparr>)"
  by (simp add: onSuccess_def)

lemma tokenizations_linked:
  "plaidToken this = Some tok \<Longrightarrow> tokenizations w this = []"
  by (simp add: submit_unfold submit_try_plaid
      split: fetch_result.splits response.splits option.splits)

lemma isComplete_submit:
  "isComplete (submit w this) \<longleftrightarrow> isComplete this \<or> (posted w this \<noteq> [] \<and> fetch w = Response Ok)"
proof (cases "plaidToken this")
  case None
  show ?thesis
  proof (cases "paymentMethod this = Bank")
    case True
    show ?thesis
      unfolding posted_token [OF None]
      by (simp add: submit_unfold submit_try_bank None True
        split: token_result.splits fetch_result.splits response.splits option.splits)
  next
    case False
    show ?thesis
      unfolding posted_token [OF None]
      by (simp add: submit_unfold submit_try_card None False
        split: token_result.splits fetch_result.splits response.splits option.splits)
  qed
next
  case (Some tok)
  show ?thesis
    unfolding posted_plaid [OF Some]
    by (simp add: submit_unfold submit_try_plaid Some
        split: fetch_result.splits response.splits option.splits)
qed

lemma after_fetch:
  assumes "posted w this \<noteq> []"
  shows "customValidity (submit w this) =
           (case fetch w of
              Response (NotOk (Some p) message) \<Rightarrow>
                if p \<noteq> [] \<and> p \<in> set (render this) then (customValidity this)(p := message)
                else customValidity this
            | _ \<Rightarrow> customValidity this)"
    and "alerts w this =
           (case fetch w of
              FetchRejected e \<Rightarrow> if truthy e then [e] else []
            | Response Ok \<Rightarrow> []
            | Response (NotOkUnreadable e) \<Rightarrow> if truthy e then [e] else []
            | Response (NotOk None message) \<Rightarrow> if message = [] then [] else [JString message]
            | Response (NotOk (Some p) message) \<Rightarrow>
                if p = [] then (if message = [] then [] else [JString message])
                else if p \<in> set (render this) then [] else [JError ''TypeError''])"
proof -
  show "customValidity (submit w this) =
           (case fetch w of
              Response (NotOk (Some p) message) \<Rightarrow>
                if p \<noteq> [] \<and> p \<in> set (render this) then (customValidity this)(p := message)
                else customValidity this
            | _ \<Rightarrow> customValidity this)"
  proof (cases "plaidToken this")
    case None
    show ?thesis
    proof (cases "paymentMethod this = Bank")
      case True
      show ?thesis
        using assms unfolding posted_token [OF None]
        by (simp add: submit_unfold submit_try_bank None True
            split: token_result.splits fetch_result.splits response.splits option.splits)
    next
      case False
      show ?thesis
        using assms unfolding posted_token [OF None]
        by (simp add: submit_unfold submit_try_card None False
            split: token_result.splits fetch_result.splits response.splits option.splits)
    qed
  next
    case (Some tok)
    show ?thesis
      by (simp add: submit_unfold submit_try_plaid Some
          split: fetch_result.splits response.splits option.splits)
  qed
  show "alerts w this =
           (case fetch w of
              FetchRejected e \<Rightarrow> if truthy e then [e] else []
            | Response Ok \<Rightarrow> []
            | Response (NotOkUnreadable e) \<Rightarrow> if truthy e then [e] else []
            | Response (NotOk None message) \<Rightarrow> if message = [] then [] else [JString message]
            | Response (NotOk (Some p) message) \<Rightarrow>
                if p = [] then (if message = [] then [] else [JString message])
                else if p \<in> set (render this) then [] else [JError ''TypeError''])"
  proof (cases "plaidToken this")
    case None
    show ?thesis
    proof (cases "paymentMethod this = Bank")
      case True
      show ?thesis
        using assms unfolding posted_token [OF None]
        by (simp add: submit_unfold submit_try_bank None True
            split: token_result.splits fetch_result.splits response.splits option.splits)
    next
      case False
      show ?thesis
        using assms unfolding posted_token [OF None]
        by (simp add: submit_unfold submit_try_card None False
            split: token_result.splits fetch_result.splits response.splits option.splits)
    qed
  next
    case (Some tok)
    show ?thesis
      by (simp add: submit_unfold submit_try_plaid Some
          split: fetch_result.splits response.splits option.splits)
  qed
qed

section \<open>Claims about tokenization and submission\<close>

text \<open>
  What the token functions do with a tokenization error when the selected method is
  the one whose strategy runs. Take a submission with no linked account whose
  tokenization call fails with parameter \<open>param\<close> and message \<open>message\<close>. With the
  card method selected and \<open>param\<close> one of the seven the card strategy knows, or the
  manual bank method selected and \<open>param\<close> one of the five the bank strategy knows,
  exactly the corresponding input gets \<open>message\<close> as its custom validity (every other
  input keeps its own), that input is scrolled into view, nothing is POSTed, no alert
  is raised and the element does not become complete. With a parameter outside the
  set of the strategy that ran (or none), no input's validity changes, nothing is
  POSTed, the strategy rejects with the processor's message, and that message is
  alerted when it is not the empty string.
\<close>

theorem token_error_marks_its_field:
  assumes "plaidToken this = None" and "createToken w = TokenError param message"
  shows "(paymentMethod this = Card \<longrightarrow>
            (\<forall>(p, f) \<in> set [(''card[name]'', ''card-holder-name''),
                  (''card[address_line1]'', ''billing-address-1''),
                  (''card[address_line2]'', ''billing-address-2''),
                  (''card[address_city]'', ''billing-city''),
                  (''card[address_zip]'', ''billing-zip''),
                  (''card[address_country]'', ''billing-country''),
                  (''currency'', ''currency'')].
               param = Some p \<longrightarrow>
                 customValidity (submit w this) = (customValidity this)(f := message)
               \<and> (\<exists>request. effects w this = [CreateToken CardElement request, ScrollIntoView f])
               \<and> posted w this = [] \<and> alerts w this = []
               \<and> isComplete (submit w this) = isComplete this))
       \<and> (paymentMethod this = Bank \<longrightarrow>
            (\<forall>(p, f) \<in> set [(''bank_account[country]'', ''billing-country''),
                  (''bank_account[currency]'', ''currency''),
                  (''bank_account[routing_number]'', ''routing-number''),
                  (''bank_account[account_number]'', ''account-number''),
                  (''bank_account[account_holder_name]'', ''account-holder-name'')].
               param = Some p \<longrightarrow>
                 customValidity (submit w this) = (customValidity this)(f := message)
               \<and> (\<exists>request. effects w this = [CreateToken BankAccount request, ScrollIntoView f])
               \<and> posted w this = [] \<and> alerts w this = []
               \<and> isComplete (submit w this) = isComplete this))
       \<and> ((if paymentMethod this = Bank
             then param \<notin> Some ` {''bank_account[country]'', ''bank_account[currency]'',
                    ''bank_account[routing_number]'', ''bank_account[account_number]'',
                    ''bank_account[account_holder_name]''}
             else param \<notin> Some ` {''card[name]'', ''card[address_line1]'', ''card[address_line2]'',
                    ''card[address_city]'', ''card[address_zip]'', ''card[address_country]'',
                    ''currency''}) \<longrightarrow>
              customValidity (submit w this) = customValidity this
            \<and> posted w this = []
            \<and> alerts w this = (if message = [] then [] else [JString message])
            \<and> (\<forall>data h. fst (if paymentMethod this = Bank then bankAccountToken w data this h
                                else cardToken w data this h) = Inl (JString message)))"
proof (intro conjI impI)
  assume m: "paymentMethod this = Card"
  then have nb: "paymentMethod this \<noteq> Bank" by simp
  show "\<forall>(p, f) \<in> set [(''card[name]'', ''card-holder-name''),
                  (''card[address_line1]'', ''billing-address-1''),
                  (''card[address_line2]'', ''billing-address-2''),
                  (''card[address_city]'', ''billing-city''),
                  (''card[address_zip]'', ''billing-zip''),
                  (''card[address_country]'', ''billing-country''),
                  (''currency'', ''currency'')].
               param = Some p \<longrightarrow>
                 customValidity (submit w this) = (customValidity this)(f := message)
               \<and> (\<exists>request. effects w this = [CreateToken CardElement request, ScrollIntoView f])
               \<and> posted w this = [] \<and> alerts w this = []
               \<and> isComplete (submit w this) = isComplete this"
    using assms m
    by (simp add: submit_unfold submit_try_card nb card_param_field_def render_def
        paymentTemplate_def paymentMethodTemplate_def cardTemplate_def)
next
  assume m: "paymentMethod this = Bank"
  show "\<forall>(p, f) \<in> set [(''bank_account[country]'', ''billing-country''),
                  (''bank_account[currency]'', ''currency''),
                  (''bank_account[routing_number]'', ''routing-number''),
                  (''bank_account[account_number]'', ''account-number''),
                  (''bank_account[account_holder_name]'', ''account-holder-name'')].
               param = Some p \<longrightarrow>
                 customValidity (submit w this) = (customValidity this)(f := message)
               \<and> (\<exists>request. effects w this = [CreateToken BankAccount request, ScrollIntoView f])
               \<and> posted w this = [] \<and> alerts w this = []
               \<and> isComplete (submit w this) = isComplete this"
    using assms m
    by (simp add: submit_unfold submit_try_bank bank_param_field_def render_def
        paymentTemplate_def paymentMethodTemplate_def bankTemplate_def)
next
  assume u: "if paymentMethod this = Bank
             then param \<notin> Some ` {''bank_account[country]'', ''bank_account[currency]'',
                    ''bank_account[routing_number]'', ''bank_account[account_number]'',
                    ''bank_account[account_holder_name]''}
             else param \<notin> Some ` {''card[name]'', ''card[address_line1]'', ''card[address_line2]'',
                    ''card[address_city]'', ''card[address_zip]'', ''card[address_country]'',
                    ''currency''}"
  have fld: "(if paymentMethod this = Bank then bank_param_field param else card_param_field param) = None"
    using u by (auto simp: bank_param_field_def card_param_field_def split: if_splits)
  show "customValidity (submit w this) = customValidity this"
    using assms fld
    by (cases "paymentMethod this = Bank") (simp_all add: submit_unfold submit_try_bank submit_try_card)
  show "posted w this = []"
    using assms by (simp add: posted_token)
  show "alerts w this = (if message = [] then [] else [JString message])"
    using assms fld
    by (cases "paymentMethod this = Bank") (simp_all add: submit_unfold submit_try_bank submit_try_card)
  show "\<forall>data h. fst (if paymentMethod this = Bank then bankAccountToken w data this h
                                else cardToken w data this h) = Inl (JString message)"
    using assms fld
    by (cases "paymentMethod this = Bank")
      (simp_all add: bankAccountToken_def cardToken_def reject_token_error_def Let_def case_prod_beta)
qed

theorem token_error_marks_its_field_example:
  "plaidToken example_card_signup = None
   \<and> createToken example_zip_refused = TokenError (Some ''card[address_zip]'') ''Your postal code is incomplete.''
   \<and> customValidity (submit example_zip_refused example_card_signup) ''billing-zip'' = ''Your postal code is incomplete.''
   \<and> customValidity (submit example_zip_refused example_card_signup) ''billing-city'' = []
   \<and> posted example_zip_refused example_card_signup = []
   \<and> alerts example_zip_refused example_card_signup = []"
  using token_error_marks_its_field [of example_card_signup example_zip_refused
      "Some ''card[address_zip]''" "''Your postal code is incomplete.''"]
  by (simp add: example_card_signup_def example_zip_refused_def)

text \<open>
  C2 fails on the code. \<^verbatim>\<open>submit\<close> picks the strategy with
  \<^verbatim>\<open>this.paymentMethod === 'bank' ? this.bankAccountToken(fields) : this.cardToken(fields)\<close>,
  so with the linked method selected and no account linked the card strategy runs,
  although the form holds no card input then. In that state a tokenization failure
  with the known parameter \<open>card[address_zip]\<close> marks no input: \<^verbatim>\<open>setInvalid\<close> finds no
  control named \<open>billing-zip\<close>, the call on null throws, and the \<^verbatim>\<open>TypeError\<close> is alerted.
\<close>

theorem C2_known_parameter_with_plaid_selected:
  "paymentMethod example_plaid_signup = Plaid
   \<and> plaidToken example_plaid_signup = None
   \<and> createToken example_zip_refused
       = TokenError (Some ''card[address_zip]'') ''Your postal code is incomplete.''
   \<and> tokenizations example_zip_refused example_plaid_signup = [CardElement]
   \<and> customValidity (submit example_zip_refused example_plaid_signup)
       = customValidity example_plaid_signup
   \<and> alerts example_zip_refused example_plaid_signup = [JError ''TypeError'']
   \<and> posted example_zip_refused example_plaid_signup = []"
  by (simp add: submit_unfold submit_try_card card_param_field_def render_def
      paymentTemplate_def paymentMethodTemplate_def plaidTemplate_def
      example_plaid_signup_def example_card_signup_def example_zip_refused_def)

text \<open>
  C3. The success callback of the bank link, given metadata with at least one
  account, stores a token made of the public token as given, the first account's id,
  and the institution name, a space and the first account's name. And a submission
  with a linked account token calls no tokenization strategy: it POSTs one body,
  which holds the stored public token and account id.
\<close>

theorem C3_linked_account_bypasses_tokenization:
  "onSuccess token \<lparr>institution_name = i, accounts = a # rest\<rparr> this =
     Inr (this\<lparr>plaidToken := Some \<lparr>public_token = token,
            account_name = i @ '' '' @ acct_name a, account_id = acct_id a\<rparr>\<rparr>)
   \<and> (plaidToken this = Some tok \<longrightarrow>
        tokenizations w this = []
      \<and> (\<exists>body. posted w this = [body]
            \<and> params_getAll body ''plaid-public-token'' = [public_token tok]
            \<and> params_getAll body ''plaid-account-id'' = [account_id tok]))"
  by (simp add: onSuccess_first_account tokenizations_linked posted_plaid params_getAll_set)

theorem C3_linked_account_bypasses_tokenization_witness:
  "plaidToken example_linked_signup = Some \<lparr>public_token = ''public-1'', account_name = ''Bank Checking'', account_id = ''acct-1''\<rparr>
   \<and> tokenizations example_accepted example_linked_signup = []
   \<and> map (\<lambda>body. params_getAll body ''plaid-public-token'') (posted example_accepted example_linked_signup) = [[''public-1'']]"
proof -
  have h: "plaidToken example_linked_signup =
      Some \<lparr>public_token = ''public-1'', account_name = ''Bank Checking'', account_id = ''acct-1''\<rparr>"
    by (simp add: example_linked_signup_def example_card_signup_def)
  show ?thesis
    using C3_linked_account_bypasses_tokenization [of "''public-1''" "''Bank''"
        "\<lparr>acct_name = ''Checking'', acct_id = ''acct-1''\<rparr>" "[]" example_linked_signup
        "\<lparr>public_token = ''public-1'', account_name = ''Bank Checking'', account_id = ''acct-1''\<rparr>"
        example_accepted] h
    by auto
qed

text \<open>
  C4. A submission POSTs at most one body, and every body it POSTs holds exactly one
  of the two token forms: with no linked account, one \<^verbatim>\<open>stripe-payment-token\<close> pair
  (the id Stripe returned) and no \<^verbatim>\<open>plaid-public-token\<close> or \<^verbatim>\<open>plaid-account-id\<close>; with a
  linked account, one pair of each of those two and no \<^verbatim>\<open>stripe-payment-token\<close>.
  Beside the token, the body holds every rendered non-payment field with its value.
\<close>

theorem C4_exactly_one_token_form:
  "length (posted w this) \<le> 1
   \<and> (\<forall>body \<in> set (posted w this).
        (case plaidToken this of
           None \<Rightarrow>
             (\<exists>tid. createToken w = Token tid \<and> params_getAll body ''stripe-payment-token'' = [tid])
             \<and> params_getAll body ''plaid-public-token'' = []
             \<and> params_getAll body ''plaid-account-id'' = []
         | Some tok \<Rightarrow>
             params_getAll body ''stripe-payment-token'' = []
             \<and> params_getAll body ''plaid-public-token'' = [public_token tok]
             \<and> params_getAll body ''plaid-account-id'' = [account_id tok])
      \<and> (\<forall>n \<in> set (render this) - set cardTemplate - set bankTemplate.
            params_getAll body n = [inputValue this n]))"
proof (cases "plaidToken this")
  case None
  have no_token: "''stripe-payment-token'' \<notin> set (render this)"
    "''plaid-public-token'' \<notin> set (render this)" "''plaid-account-id'' \<notin> set (render this)"
    by (cases "paymentMethod this";
        simp add: None render_def paymentTemplate_def paymentMethodTemplate_def bankTemplate_def
          cardTemplate_def plaidTemplate_def)+
  show ?thesis
    using no_token
    by (auto simp: None posted_token params_getAll_set params_getAll_filter
        params_getAll_FormData_rendered params_getAll_FormData_absent split: token_result.splits)
next
  case (Some tok)
  have no_token: "''stripe-payment-token'' \<notin> set (render this)"
    "''plaid-public-token'' \<notin> set (render this)" "''plaid-account-id'' \<notin> set (render this)"
    by (simp_all add: Some render_def connectedPlaidTemplate_def)
  then show ?thesis
    by (auto simp: Some posted_plaid params_getAll_set params_getAll_FormData_rendered
        params_getAll_FormData_absent)
qed

theorem C4_exactly_one_token_form_witness:
  "map (\<lambda>body. params_getAll body ''stripe-payment-token'') (posted example_accepted example_card_signup) = [[''tok_1'']]
   \<and> map (\<lambda>body. params_getAll body ''plaid-public-token'') (posted example_accepted example_card_signup) = [[]]
   \<and> map (\<lambda>body. params_getAll body ''preferred-name'') (posted example_accepted example_card_signup) = [[''Ada'']]"
proof -
  obtain body where p: "posted example_accepted example_card_signup = [body]"
    by (simp add: posted_token example_accepted_def example_card_signup_def)
  have r: "''preferred-name'' \<in> set (render example_card_signup) - set cardTemplate - set bankTemplate"
    by (simp add: render_def cardTemplate_def bankTemplate_def)
  have "params_getAll body ''preferred-name'' = [inputValue example_card_signup ''preferred-name'']"
    using C4_exactly_one_token_form [of example_accepted example_card_signup] r
    unfolding p by auto
  moreover have "params_getAll body ''stripe-payment-token'' = [''tok_1'']
      \<and> params_getAll body ''plaid-public-token'' = []"
    using C4_exactly_one_token_form [of example_accepted example_card_signup]
    unfolding p by (simp add: example_accepted_def example_card_signup_def)
  ultimately show ?thesis
    unfolding p by (simp add: example_card_signup_def example_values_def)
qed

text \<open>
  C6. No body a submission POSTs holds a field of a payment method other than the
  selected one: with the linked or the manual bank method selected it holds none of
  the card fields, and with the card or the linked method selected it holds none of
  the manual bank fields, whatever values the inputs of those names hold.
\<close>

theorem C6_no_inactive_method_fields:
  "\<forall>body \<in> set (posted w this).
     (paymentMethod this \<in> {Plaid, Bank} \<longrightarrow>
        (\<forall>n \<in> {''card-holder-name'', ''billing-address-1'', ''billing-address-2'', ''billing-city'',
               ''billing-state'', ''billing-zip''}. \<not> params_has body n))
   \<and> (paymentMethod this \<in> {Card, Plaid} \<longrightarrow>
        (\<forall>n \<in> {''routing-number'', ''account-number'', ''account-holder-name''}. \<not> params_has body n))"
proof (cases "plaidToken this")
  case None
  then show ?thesis
    by (auto simp: posted_token params_has_getAll params_getAll_set params_getAll_filter
        params_getAll_FormData render_def paymentTemplate_def paymentMethodTemplate_def
        bankTemplate_def cardTemplate_def plaidTemplate_def
        split: token_result.splits payment_method.splits)
next
  case (Some tok)
  then show ?thesis
    by (simp add: posted_plaid params_has_getAll params_getAll_set params_getAll_FormData
        render_def connectedPlaidTemplate_def)
qed

theorem C6_no_inactive_method_fields_witness:
  "inputValue example_bank_signup ''card-holder-name'' = ''Ada Lovelace''
   \<and> paymentMethod example_bank_signup = Bank
   \<and> map (\<lambda>body. params_has body ''card-holder-name'') (posted example_accepted example_bank_signup) = [False]
   \<and> map (\<lambda>body. params_has body ''currency'') (posted example_accepted example_bank_signup) = [True]"
proof -
  obtain body where p: "posted example_accepted example_bank_signup = [body]"
    and c: "params_getAll body ''currency'' = [''usd'']"
    by (simp add: posted_token example_accepted_def example_bank_signup_def example_card_signup_def
        params_getAll_set params_getAll_filter params_getAll_FormData_rendered render_def
        paymentTemplate_def paymentMethodTemplate_def bankTemplate_def example_values_def)
  have m: "paymentMethod example_bank_signup = Bank"
    by (simp add: example_bank_signup_def)
  have "\<not> params_has body ''card-holder-name''"
    using C6_no_inactive_method_fields [of example_accepted example_bank_signup] m
    unfolding p by simp
  then show ?thesis
    unfolding p using c m
    by (simp add: params_has_getAll example_bank_signup_def example_card_signup_def example_values_def)
qed

section \<open>Doubles: lemmas\<close>















section \<open>Printing integers: lemmas\<close>














section \<open>Claim about the dues\<close>







section \<open>Claims about the submission flags\<close>

text \<open>
  C8. Whatever the state and whatever the world answers (a token or a tokenization
  error or rejection; an ok response, an error response with or without a parameter,
  an unreadable response or a rejected fetch), \<^verbatim>\<open>isLoading\<close> is false when \<^verbatim>\<open>submit\<close> ends.
\<close>

theorem C8_loading_cleared: "isLoading (submit w this) = False"
  by (simp add: submit_def Let_def case_prod_beta)

text \<open>
  What a submission does with the backend's answer. It leaves the element complete
  exactly when it was complete before or it POSTed and the response was ok; an ok
  response raises no alert and marks no input. After a POST answered with a
  structured error the element's completeness is unchanged, and: a parameter naming
  an input of the form gives that input the error's message as custom validity and
  raises no alert; no parameter (or an empty one) changes no validity and alerts the
  message when it is not the empty string.
\<close>

theorem complete_iff_post_ok:
  "(isComplete (submit w this) \<longleftrightarrow> isComplete this \<or> (posted w this \<noteq> [] \<and> fetch w = Response Ok))
   \<and> (posted w this \<noteq> [] \<and> fetch w = Response Ok \<longrightarrow>
        alerts w this = [] \<and> customValidity (submit w this) = customValidity this)
   \<and> (posted w this \<noteq> [] \<and> fetch w = Response (NotOk param message) \<longrightarrow>
        isComplete (submit w this) = isComplete this
      \<and> (\<forall>p. param = Some p \<and> p \<noteq> [] \<and> p \<in> set (render this) \<longrightarrow>
            customValidity (submit w this) = (customValidity this)(p := message)
          \<and> alerts w this = [])
      \<and> (param = None \<or> param = Some [] \<longrightarrow>
            customValidity (submit w this) = customValidity this
          \<and> alerts w this = (if message = [] then [] else [JString message])))"
proof (intro conjI impI)
  show c: "isComplete (submit w this) \<longleftrightarrow> isComplete this \<or> (posted w this \<noteq> [] \<and> fetch w = Response Ok)"
    by (rule isComplete_submit)
  {
    assume a: "posted w this \<noteq> [] \<and> fetch w = Response Ok"
    show "alerts w this = []" using a after_fetch(2) [of w this] by simp
    show "customValidity (submit w this) = customValidity this"
      using a after_fetch(1) [of w this] by simp
  }
  {
    assume a: "posted w this \<noteq> [] \<and> fetch w = Response (NotOk param message)"
    show "isComplete (submit w this) = isComplete this" using a c by simp
    show "\<forall>p. param = Some p \<and> p \<noteq> [] \<and> p \<in> set (render this) \<longrightarrow>
            customValidity (submit w this) = (customValidity this)(p := message)
          \<and> alerts w this = []"
      using a after_fetch [of w this] by simp
    {
      assume "param = None \<or> param = Some []"
      then show "customValidity (submit w this) = customValidity this"
        using a after_fetch(1) [of w this] by auto
      show "alerts w this = (if message = [] then [] else [JString message])"
        using a after_fetch(2) [of w this] \<open>param = None \<or> param = Some []\<close> by auto
    }
  }
qed

theorem complete_iff_post_ok_example:
  "posted example_email_refused example_card_signup \<noteq> []
   \<and> fetch example_email_refused = Response (NotOk (Some ''personal-email'') ''Invalid email'')
   \<and> \<not> isComplete (submit example_email_refused example_card_signup)
   \<and> customValidity (submit example_email_refused example_card_signup) ''personal-email'' = ''Invalid email''
   \<and> alerts example_email_refused example_card_signup = []"
proof -
  have p: "posted example_email_refused example_card_signup \<noteq> []"
    by (simp add: posted_token example_email_refused_def example_card_signup_def)
  have r: "''personal-email'' \<in> set (render example_card_signup)"
    by (simp add: render_def)
  show ?thesis
    using complete_iff_post_ok [of example_email_refused example_card_signup
        "Some ''personal-email''" "''Invalid email''"] p r
    by (simp add: example_email_refused_def example_card_signup_def)
qed

text \<open>
  C9 fails on the code. The backend's error names a parameter that is no input of the
  form (the token field the element itself added to the body). \<^verbatim>\<open>submit\<close> calls
  \<^verbatim>\<open>setInvalid\<close> with it, no control of that name exists, and the call on null throws:
  no input is marked invalid and the error's message is never shown; the alert shows
  the \<^verbatim>\<open>TypeError\<close> instead. The element does not become complete.
\<close>

theorem C9_parameter_naming_no_input:
  "fetch example_token_refused = Response (NotOk (Some ''stripe-payment-token'') ''Card declined'')
   \<and> length (posted example_token_refused example_card_signup) = 1
   \<and> ''stripe-payment-token'' \<notin> set (render example_card_signup)
   \<and> customValidity (submit example_token_refused example_card_signup)
       = customValidity example_card_signup
   \<and> alerts example_token_refused example_card_signup = [JError ''TypeError'']
   \<and> isComplete (submit example_token_refused example_card_signup) = False"
proof -
  have p: "posted example_token_refused example_card_signup \<noteq> []"
    "length (posted example_token_refused example_card_signup) = 1"
    by (simp_all add: posted_token example_token_refused_def example_card_signup_def)
  have r: "''stripe-payment-token'' \<notin> set (render example_card_signup)"
    by (simp add: render_def paymentTemplate_def paymentMethodTemplate_def cardTemplate_def
        example_card_signup_def)
  have f: "fetch example_token_refused = Response (NotOk (Some ''stripe-payment-token'') ''Card declined'')"
    by (simp add: example_token_refused_def)
  have "customValidity (submit example_token_refused example_card_signup)
       = customValidity example_card_signup"
    using after_fetch(1) [OF p(1)] r by (simp add: f)
  moreover have "alerts example_token_refused example_card_signup = [JError ''TypeError'']"
    using after_fetch(2) [OF p(1)] r by (simp add: f)
  moreover have "isComplete (submit example_token_refused example_card_signup) = False"
    using isComplete_submit [of example_token_refused example_card_signup]
    by (simp add: f example_card_signup_def)
  ultimately show ?thesis using p r f by simp
qed

end
